theory Spec2Isabelle
  imports Complex_Main
begin

text \<open>
  A model of the dense linear solver of \<^verbatim>\<open>second_lab\<close>: the routine \<^verbatim>\<open>details::decomp\<close>
  (Gaussian elimination with partial pivoting and an estimate of the condition
  number, \<^verbatim>\<open>Decomp.cpp\<close>), the routine \<^verbatim>\<open>details::solve\<close> (forward elimination and back
  substitution, \<^verbatim>\<open>Solve.cpp\<close>), and the two classes \<^verbatim>\<open>Decomp\<close> and \<^verbatim>\<open>Solve\<close> that own the
  buffers and call them. Every loop of the source is a \<open>fold\<close> over its index range,
  or a recursion over that range when the loop can jump to the exit.
\<close>

section \<open>Values of type double\<close>

text \<open>
  A C++ \<^verbatim>\<open>double\<close> is a finite number, an infinity or a NaN. A finite double is
  modelled by the rational number it denotes, and the arithmetic on finite values
  is exact: rounding, overflow to an infinity and the sign of a zero are outside the
  model. What the model keeps of IEEE 754 is everything that changes the control
  flow of the program on exact data: a division by zero gives an infinity or a NaN
  (the sign taken from the dividend, a zero divisor counting as +0), a product of
  zero and an infinity is a NaN, every comparison with a NaN is false, and a NaN
  is not equal to itself. A decimal literal (2.2e-16, 1.0e+32) denotes its decimal
  value.
\<close>

datatype double = Fin rat | PInf | NInf | NaN

fun fneg :: "double \<Rightarrow> double" where
  "fneg (Fin x) = Fin (- x)"
| "fneg PInf = NInf"
| "fneg NInf = PInf"
| "fneg NaN = NaN"

fun fabs :: "double \<Rightarrow> double" where
  "fabs (Fin x) = Fin \<bar>x\<bar>"
| "fabs PInf = PInf"
| "fabs NInf = PInf"
| "fabs NaN = NaN"

fun fadd :: "double \<Rightarrow> double \<Rightarrow> double" where
  "fadd (Fin x) (Fin y) = Fin (x + y)"
| "fadd NaN _ = NaN"
| "fadd _ NaN = NaN"
| "fadd PInf NInf = NaN"
| "fadd NInf PInf = NaN"
| "fadd PInf _ = PInf"
| "fadd NInf _ = NInf"
| "fadd _ PInf = PInf"
| "fadd _ NInf = NInf"

definition fsub :: "double \<Rightarrow> double \<Rightarrow> double" where
  "fsub x y = fadd x (fneg y)"

fun fmul :: "double \<Rightarrow> double \<Rightarrow> double" where
  "fmul (Fin x) (Fin y) = Fin (x * y)"
| "fmul NaN _ = NaN"
| "fmul _ NaN = NaN"
| "fmul (Fin x) PInf = (if x = 0 then NaN else if 0 < x then PInf else NInf)"
| "fmul (Fin x) NInf = (if x = 0 then NaN else if 0 < x then NInf else PInf)"
| "fmul PInf (Fin y) = (if y = 0 then NaN else if 0 < y then PInf else NInf)"
| "fmul NInf (Fin y) = (if y = 0 then NaN else if 0 < y then NInf else PInf)"
| "fmul PInf PInf = PInf"
| "fmul PInf NInf = NInf"
| "fmul NInf PInf = NInf"
| "fmul NInf NInf = PInf"

fun fdiv :: "double \<Rightarrow> double \<Rightarrow> double" where
  "fdiv (Fin x) (Fin y) =
     (if y = 0 then (if x = 0 then NaN else if 0 < x then PInf else NInf)
      else Fin (x / y))"
| "fdiv NaN _ = NaN"
| "fdiv _ NaN = NaN"
| "fdiv (Fin x) PInf = Fin 0"
| "fdiv (Fin x) NInf = Fin 0"
| "fdiv PInf (Fin y) = (if 0 \<le> y then PInf else NInf)"
| "fdiv NInf (Fin y) = (if 0 \<le> y then NInf else PInf)"
| "fdiv PInf PInf = NaN"
| "fdiv PInf NInf = NaN"
| "fdiv NInf PInf = NaN"
| "fdiv NInf NInf = NaN"

text \<open>The comparisons \<^verbatim>\<open><\<close>, \<^verbatim>\<open>>\<close> and \<^verbatim>\<open>==\<close> of C++ on doubles.\<close>

fun flt :: "double \<Rightarrow> double \<Rightarrow> bool" where
  "flt (Fin x) (Fin y) = (x < y)"
| "flt NaN _ = False"
| "flt _ NaN = False"
| "flt NInf NInf = False"
| "flt NInf _ = True"
| "flt PInf _ = False"
| "flt (Fin x) PInf = True"
| "flt (Fin x) NInf = False"

definition fgt :: "double \<Rightarrow> double \<Rightarrow> bool" where
  "fgt x y = flt y x"

definition feq :: "double \<Rightarrow> double \<Rightarrow> bool" where
  "feq x y = (x \<noteq> NaN \<and> y \<noteq> NaN \<and> x = y)"

definition EPSILON :: double where
  "EPSILON = Fin (22 / 10 ^ 17)"

definition sentinel :: double where
  \<comment> \<open>the literal 1.0e+32\<close>
  "sentinel = Fin (10 ^ 32)"

text \<open>
  Memory obtained from \<^verbatim>\<open>malloc\<close> or \<^verbatim>\<open>new[]\<close> holds indeterminate values. The
  allocator is an input of the model: it says whether \<^verbatim>\<open>malloc\<close> succeeds and which
  value each cell of a fresh block holds. A property proved for every allocator
  does not depend on these values. An allocation with \<^verbatim>\<open>new[]\<close> is taken to succeed.
\<close>

record allocator =
  malloc_ok :: bool
  fresh_double :: "nat \<Rightarrow> double"
  fresh_int :: "nat \<Rightarrow> int"

definition new_double_array :: "allocator \<Rightarrow> nat \<Rightarrow> double list" where
  "new_double_array h k = map (fresh_double h) [0..<k]"

definition new_int_array :: "allocator \<Rightarrow> nat \<Rightarrow> int list" where
  "new_int_array h k = map (fresh_int h) [0..<k]"

section \<open>details::solve (Solve.cpp)\<close>

text \<open>
  The matrix \<open>a\<close> is a flat row-major buffer with row stride \<open>ndim\<close>: element (i, j)
  is \<open>a ! (i * ndim + j)\<close>. The function overwrites \<open>b\<close>; the model returns the new
  content of \<open>b\<close>. The order \<open>n\<close> is a natural number here: for \<open>n \<le> 0\<close> neither loop
  of the source runs, as with \<open>n = 0\<close> in the model.
\<close>

definition solve_forward_step :: "nat \<Rightarrow> nat \<Rightarrow> double list \<Rightarrow> int list \<Rightarrow> nat \<Rightarrow> double list \<Rightarrow> double list" where
  "solve_forward_step n ndim a pivot k b =
     (let m = nat (pivot ! k);
          t = b ! m;
          b1 = b[m := b ! k];
          b2 = b1[k := t]
      in fold (\<lambda>i b. b[i := fadd (b ! i) (fmul (a ! (i * ndim + k)) t)]) [k + 1..<n] b2)"

definition solve_back_step :: "nat \<Rightarrow> nat \<Rightarrow> double list \<Rightarrow> nat \<Rightarrow> double list \<Rightarrow> double list" where
  "solve_back_step n ndim a k b =
     (let t = fold (\<lambda>j t. fsub t (fmul (a ! (k * ndim + j)) (b ! j))) [k + 1..<n] (b ! k)
      in b[k := fdiv t (a ! (k * ndim + k))])"

definition solve :: "nat \<Rightarrow> nat \<Rightarrow> double list \<Rightarrow> double list \<Rightarrow> int list \<Rightarrow> double list" where
  "solve n ndim a b pivot =
     (if n = 1 then b[0 := fdiv (b ! 0) (a ! 0)]
      else
        let b1 = fold (solve_forward_step n ndim a pivot) [0..<n - 1] b
        in fold (solve_back_step n ndim a) (rev [0..<n]) b1)"

section \<open>details::decomp (Decomp.cpp)\<close>

text \<open>The 1-norm of the matrix: the largest column sum of absolute values.\<close>

definition column_sum :: "nat \<Rightarrow> nat \<Rightarrow> double list \<Rightarrow> nat \<Rightarrow> double" where
  "column_sum n ndim a j = fold (\<lambda>i t. fadd t (fabs (a ! (i * ndim + j)))) [0..<n] (Fin 0)"

definition norm1 :: "nat \<Rightarrow> nat \<Rightarrow> double list \<Rightarrow> double" where
  "norm1 n ndim a =
     fold (\<lambda>j anorm. let t = column_sum n ndim a j in if fgt t anorm then t else anorm)
       [0..<n] (Fin 0)"

text \<open>
  The pivot search of step \<open>k\<close>: the scan keeps the row \<open>m\<close> and the magnitude \<open>pvt\<close>
  of the best candidate so far, and replaces them only by a strictly larger one.
\<close>

definition find_pivot :: "nat \<Rightarrow> nat \<Rightarrow> double list \<Rightarrow> nat \<Rightarrow> nat \<times> double" where
  "find_pivot n ndim a k =
     fold (\<lambda>i (m, pvt). let t = fabs (a ! (i * ndim + k)) in if fgt t pvt then (i, t) else (m, pvt))
       [k + 1..<n] (k, fabs (a ! (k * ndim + k)))"

text \<open>The interchange of rows \<open>m\<close> and \<open>k\<close> over the columns \<open>k .. n-1\<close>.\<close>

definition swap_rows :: "nat \<Rightarrow> nat \<Rightarrow> nat \<Rightarrow> nat \<Rightarrow> double list \<Rightarrow> double list" where
  "swap_rows n ndim m k a =
     fold (\<lambda>j a. let pa = m * ndim + j; pb = k * ndim + j; t = a ! pa in (a[pa := a ! pb])[pb := t])
       [k..<n] a"

text \<open>
  The first half of step \<open>k\<close>, up to the test of the pivot: the search, the record
  in \<open>pivot[k]\<close>, and when \<open>m \<noteq> k\<close> the change of sign of \<open>pivot[n-1]\<close> and the
  interchange. The value \<open>pvt\<close> is read from row \<open>m\<close> before the interchange.
\<close>

definition pivot_phase :: "nat \<Rightarrow> nat \<Rightarrow> nat \<Rightarrow> double list \<times> int list \<Rightarrow> double list \<times> int list \<times> double" where
  "pivot_phase n ndim k st =
     (let a = fst st; pivot = snd st;
          m = fst (find_pivot n ndim a k);
          pivot1 = pivot[k := int m];
          pvt = a ! (m * ndim + k)
      in if m \<noteq> k
         then (swap_rows n ndim m k a, pivot1[n - 1 := - (pivot1 ! (n - 1))], pvt)
         else (a, pivot1, pvt))"

text \<open>The elimination of the rows below row \<open>k\<close>, the multipliers stored in column \<open>k\<close>.\<close>

definition eliminate_row :: "nat \<Rightarrow> nat \<Rightarrow> double \<Rightarrow> nat \<Rightarrow> double \<Rightarrow> nat \<Rightarrow> double list \<Rightarrow> double list" where
  "eliminate_row n ndim anorm k pvt i a =
     (let pa = i * ndim + k;
          t = fneg (fdiv (a ! pa) pvt);
          a1 = a[pa := t]
      in fold (\<lambda>j a. if fgt (fabs t) (fmul anorm EPSILON)
                      then a[i * ndim + j := fadd (a ! (i * ndim + j)) (fmul (a ! (k * ndim + j)) t)]
                      else a)
           [k + 1..<n] a1)"

definition eliminate_rows :: "nat \<Rightarrow> nat \<Rightarrow> double \<Rightarrow> nat \<Rightarrow> double \<Rightarrow> double list \<Rightarrow> double list" where
  "eliminate_rows n ndim anorm k pvt a = fold (eliminate_row n ndim anorm k pvt) [k + 1..<n] a"

text \<open>
  The outcome of a loop that can jump to \<^verbatim>\<open>DecompExit\<close>: \<open>Bail\<close> carries the state at
  the jump, \<open>Done\<close> the state after the last iteration.
\<close>

datatype 's outcome = Bail 's | Done 's

definition too_small :: "double \<Rightarrow> double \<Rightarrow> bool" where
  "too_small anorm x = flt (fabs x) (fmul anorm EPSILON)"

fun elimination :: "nat \<Rightarrow> nat \<Rightarrow> double \<Rightarrow> nat list \<Rightarrow> double list \<times> int list \<Rightarrow> (double list \<times> int list) outcome" where
  "elimination n ndim anorm [] st = Done st"
| "elimination n ndim anorm (k # ks) st =
     (case pivot_phase n ndim k st of
        (a1, pivot1, pvt) \<Rightarrow>
          if too_small anorm pvt then Bail (a1, pivot1)
          else elimination n ndim anorm ks (eliminate_rows n ndim anorm k pvt a1, pivot1))"

text \<open>Solving (a-transpose) * y = e: the first loop, which can also jump to the exit.\<close>

definition dot_column_above :: "nat \<Rightarrow> double list \<Rightarrow> double list \<Rightarrow> nat \<Rightarrow> double" where
  "dot_column_above ndim a work k =
     (if k \<noteq> 0 then fold (\<lambda>i t. fadd t (fmul (a ! (i * ndim + k)) (work ! i))) [0..<k] (Fin 0)
      else Fin 0)"

fun ytrans :: "nat \<Rightarrow> double \<Rightarrow> double list \<Rightarrow> nat list \<Rightarrow> double list \<Rightarrow> (double list) outcome" where
  "ytrans ndim anorm a [] work = Done work"
| "ytrans ndim anorm a (k # ks) work =
     (let t = dot_column_above ndim a work k;
          ek = (if flt t (Fin 0) then Fin (- 1) else Fin 1);
          pa = a ! (k * ndim + k)
      in if too_small anorm pa then Bail work
         else ytrans ndim anorm a ks (work[k := fdiv (fneg (fadd ek t)) pa]))"

text \<open>The second loop, \<open>k\<close> from \<open>n - 2\<close> down to 0.\<close>

definition ytrans_back_step :: "nat \<Rightarrow> nat \<Rightarrow> double list \<Rightarrow> int list \<Rightarrow> nat \<Rightarrow> double list \<Rightarrow> double list" where
  "ytrans_back_step n ndim a pivot k work =
     (let t = fold (\<lambda>i t. fadd t (fmul (a ! (i * ndim + k)) (work ! i))) [k + 1..<n] (Fin 0);
          work1 = work[k := t];
          m = nat (pivot ! k)
      in if m \<noteq> k then (work1[m := work1 ! k])[k := work1 ! m] else work1)"

definition sum_abs :: "nat \<Rightarrow> double list \<Rightarrow> double" where
  "sum_abs n work = fold (\<lambda>i s. fadd s (fabs (work ! i))) [0..<n] (Fin 0)"

text \<open>
  The memory the pointer arguments of \<^verbatim>\<open>decomp\<close> point to. A null pointer is \<open>None\<close>.
\<close>

record decomp_mem =
  mem_a :: "double list option"
  mem_cond :: double
  mem_pivot :: "int list option"
  mem_flag :: int

text \<open>
  The condition estimate, from the end of the elimination to \<^verbatim>\<open>DecompExit\<close>. It
  returns the values of \<^verbatim>\<open>*cond\<close> and \<^verbatim>\<open>*flag\<close>; \<open>flag0\<close> is the value of \<^verbatim>\<open>*flag\<close> on entry.
\<close>

definition estimate :: "nat \<Rightarrow> nat \<Rightarrow> double \<Rightarrow> double list \<Rightarrow> int list \<Rightarrow> double list \<Rightarrow> int \<Rightarrow> double \<times> int" where
  "estimate n ndim anorm a pivot work flag0 =
     (case ytrans ndim anorm a [0..<n] work of
        Bail _ \<Rightarrow> (sentinel, 3)
      | Done work1 \<Rightarrow>
          let work2 = fold (ytrans_back_step n ndim a pivot) (rev [0..<n - 1]) work1;
              ynorm = sum_abs n work2;
              work3 = solve n ndim a work2 pivot;
              znorm = sum_abs n work3;
              cond1 = fdiv (fmul anorm znorm) ynorm;
              cond2 = (if flt cond1 (Fin 1) then Fin 1 else cond1)
          in (cond2, if feq (fadd cond2 (Fin 1)) cond2 then 3 else flag0))"

text \<open>
  \<^verbatim>\<open>decomp\<close> itself; the workspace comes from the allocator \<open>h\<close>.
  The orders \<open>n\<close> and \<open>ndim\<close> are the \<^verbatim>\<open>int\<close> arguments of the source.
\<close>

definition decomp :: "allocator \<Rightarrow> int \<Rightarrow> int \<Rightarrow> decomp_mem \<Rightarrow> decomp_mem" where
  "decomp h n ndim mem =
     (let mem0 = mem\<lparr>mem_flag := 0\<rparr> in
      case (mem_a mem0, mem_pivot mem0) of
        (Some a, Some pivot) \<Rightarrow>
          if n < 1 \<or> ndim < n then mem0\<lparr>mem_flag := 2\<rparr>
          else
            let pivot0 = pivot[nat n - 1 := 1] in
            if n = 1 then
              (if feq (a ! 0) (Fin 0)
               then mem0\<lparr>mem_pivot := Some pivot0, mem_cond := sentinel, mem_flag := 3\<rparr>
               else mem0\<lparr>mem_pivot := Some pivot0, mem_cond := Fin 1\<rparr>)
            else if \<not> malloc_ok h then mem0\<lparr>mem_pivot := Some pivot0, mem_flag := 1\<rparr>
            else
              let work = new_double_array h (nat n);
                  anorm = norm1 (nat n) (nat ndim) a
              in (case elimination (nat n) (nat ndim) anorm [0..<nat n - 1] (a, pivot0) of
                    Bail (a1, pivot1) \<Rightarrow>
                      mem0\<lparr>mem_a := Some a1, mem_pivot := Some pivot1, mem_cond := sentinel, mem_flag := 3\<rparr>
                  | Done (a1, pivot1) \<Rightarrow>
                      (case estimate (nat n) (nat ndim) anorm a1 pivot1 work 0 of
                         (c, f) \<Rightarrow>
                           mem0\<lparr>mem_a := Some a1, mem_pivot := Some pivot1, mem_cond := c, mem_flag := f\<rparr>))
      | _ \<Rightarrow> mem0\<lparr>mem_flag := 2\<rparr>)"

section \<open>The classes Decomp and Solve\<close>

datatype error = LogicError string | UndefinedBehaviour

text \<open>
  A name that ends with an underscore is not a name of a constant, so the members
  \<^verbatim>\<open>cond_\<close>, \<^verbatim>\<open>size_\<close>, \<^verbatim>\<open>data_\<close>, \<^verbatim>\<open>pivot_\<close>, \<^verbatim>\<open>flag_\<close> of \<^verbatim>\<open>Decomp\<close> and \<^verbatim>\<open>data_right_\<close>
  of \<^verbatim>\<open>Solve\<close> carry the name of their class in front instead.
\<close>

record Decomp =
  Decomp_cond :: double
  Decomp_size :: int
  Decomp_data :: "double list option"
  Decomp_pivot :: "int list option"
  Decomp_flag :: int

definition Decomp_init :: Decomp where
  "Decomp_init = \<lparr>Decomp_cond = Fin 0, Decomp_size = 0, Decomp_data = None, Decomp_pivot = None, Decomp_flag = 0\<rparr>"

text \<open>
  \<^verbatim>\<open>Decomp::operator()\<close>. The copy loop writes the elements of all rows one after the
  other into the data buffer, which has \<open>size * size\<close> cells: with more elements than
  cells it writes past the end of the buffer, which is the outcome
  \<open>UndefinedBehaviour\<close>; with fewer the last cells stay indeterminate. An exception
  leaves the object as it was.
\<close>

definition Decomp_call :: "allocator \<Rightarrow> Decomp \<Rightarrow> double list list \<Rightarrow> error + Decomp" where
  "Decomp_call h d matrix =
     (if matrix = [] then Inl (LogicError ''Check matrix'')
      else if length matrix \<noteq> length (matrix ! 0) then Inl (LogicError ''Check size of matrix'')
      else
        let sz = length matrix;
            elems = concat matrix
        in if sz * sz < length elems then Inl UndefinedBehaviour
           else
             let data = elems @ drop (length elems) (new_double_array h (sz * sz));
                 mem = decomp h (int sz) (int sz)
                         \<lparr>mem_a = Some data, mem_cond = Decomp_cond d,
                          mem_pivot = Some (new_int_array h (sz * sz)), mem_flag = Decomp_flag d\<rparr>
             in Inr \<lparr>Decomp_cond = mem_cond mem, Decomp_size = int sz, Decomp_data = mem_a mem,
                     Decomp_pivot = mem_pivot mem, Decomp_flag = mem_flag mem\<rparr>)"

record Solve =
  Solve_data_right :: "double list option"

text \<open>
  \<^verbatim>\<open>Solve::operator()\<close>. The second argument is a reference to the caller's vector, so
  the model returns, next to the outcome, the content of that vector after the call.
  The factorization is made by a local \<^verbatim>\<open>Decomp\<close> object, and its flag is not read.
\<close>

definition Solve_call :: "allocator \<Rightarrow> Solve \<Rightarrow> double list list \<Rightarrow> double list \<Rightarrow> (error + Solve) \<times> double list" where
  "Solve_call h s matrix_left matrix_right =
     (if length matrix_left \<noteq> length matrix_right then (Inl (LogicError ''Check data''), matrix_right)
      else
        let copy = fold (\<lambda>i d. d[i := matrix_right ! i]) [0..<length matrix_right]
                     (new_double_array h (length matrix_right))
        in case Decomp_call h Decomp_init matrix_left of
             Inl e \<Rightarrow> (Inl e, matrix_right)
           | Inr dec \<Rightarrow>
               (case (Decomp_data dec, Decomp_pivot dec) of
                  (Some a, Some pivot) \<Rightarrow>
                    (Inr (s\<lparr>Solve_data_right := Some (solve (length matrix_left) (length matrix_left) a copy pivot)\<rparr>),
                     matrix_right)
                | _ \<Rightarrow> (Inl UndefinedBehaviour, matrix_right)))"



section \<open>Allocators\<close>

lemma allocator_ok_eq:
  "malloc_ok h \<Longrightarrow> h = \<lparr>malloc_ok = True, fresh_double = fresh_double h, fresh_int = fresh_int h\<rparr>"
  by (cases h) simp

section \<open>Order one\<close>

text \<open>
  C8. For order 1, factoring [[0]] gives status 3 (singular) and condition 1e32;
  factoring [[c]] for a nonzero c gives status 0 and condition 1.0; and solving the
  right-hand side [10] against the factorization of [[5]] gives [2], both through
  \<^verbatim>\<open>details::solve\<close> and through \<^verbatim>\<open>Solve::operator()\<close>.
\<close>

theorem order_one:
  "Decomp_call h d [[Fin 0]] =
     Inr \<lparr>Decomp_cond = sentinel, Decomp_size = 1, Decomp_data = Some [Fin 0],
          Decomp_pivot = Some [1], Decomp_flag = 3\<rparr>
   \<and> (\<not> feq c (Fin 0) \<longrightarrow>
        Decomp_call h d [[c]] =
          Inr \<lparr>Decomp_cond = Fin 1, Decomp_size = 1, Decomp_data = Some [c],
               Decomp_pivot = Some [1], Decomp_flag = 0\<rparr>)
   \<and> solve 1 1 [Fin 5] [Fin 10] [1] = [Fin 2]
   \<and> Solve_call h s [[Fin 5]] [Fin 10] = (Inr (s\<lparr>Solve_data_right := Some [Fin 2]\<rparr>), [Fin 10])"
  by (simp add: Decomp_call_def decomp_def new_double_array_def new_int_array_def feq_def
      Solve_call_def solve_def Decomp_init_def)

theorem order_one_witness:
  "\<not> feq (Fin 5) (Fin 0) \<and>
   Decomp_call \<lparr>malloc_ok = True, fresh_double = (\<lambda>_. NaN), fresh_int = (\<lambda>_. 0)\<rparr> Decomp_init [[Fin 5]] =
     Inr \<lparr>Decomp_cond = Fin 1, Decomp_size = 1, Decomp_data = Some [Fin 5],
          Decomp_pivot = Some [1], Decomp_flag = 0\<rparr>"
  using order_one [of "\<lparr>malloc_ok = True, fresh_double = (\<lambda>_. NaN), fresh_int = (\<lambda>_. 0)\<rparr>" Decomp_init "Fin 5"]
  by (simp add: feq_def)

section \<open>The exchange matrix\<close>

text \<open>
  C9. For A = [[0,1],[1,0]] and b = [2,5] the pivot search of column 0 selects row 1,
  the factorization records pivot[0] = 1, and the solve gives exactly [5, 2].
\<close>

theorem exchange_matrix:
  assumes "malloc_ok h"
  shows "fst (find_pivot 2 2 [Fin 0, Fin 1, Fin 1, Fin 0] 0) = 1
    \<and> Decomp_call h d [[Fin 0, Fin 1], [Fin 1, Fin 0]] =
        Inr \<lparr>Decomp_cond = Fin 1, Decomp_size = 2, Decomp_data = Some [Fin 1, Fin 0, Fin 0, Fin 1],
             Decomp_pivot = Some [1, - 1, fresh_int h 2, fresh_int h 3], Decomp_flag = 0\<rparr>
    \<and> Solve_call h s [[Fin 0, Fin 1], [Fin 1, Fin 0]] [Fin 2, Fin 5] =
        (Inr (s\<lparr>Solve_data_right := Some [Fin 5, Fin 2]\<rparr>), [Fin 2, Fin 5])"
proof -
  have 1: "fst (find_pivot 2 2 [Fin 0, Fin 1, Fin 1, Fin 0] 0) = 1"
    by code_simp
  have 2: "Decomp_call \<lparr>malloc_ok = True, fresh_double = fd, fresh_int = fi\<rparr> d [[Fin 0, Fin 1], [Fin 1, Fin 0]] =
        Inr \<lparr>Decomp_cond = Fin 1, Decomp_size = 2, Decomp_data = Some [Fin 1, Fin 0, Fin 0, Fin 1],
             Decomp_pivot = Some [1, - 1, fi 2, fi 3], Decomp_flag = 0\<rparr>" for fd fi
    by code_simp
  have 3: "Solve_call \<lparr>malloc_ok = True, fresh_double = fd, fresh_int = fi\<rparr> s [[Fin 0, Fin 1], [Fin 1, Fin 0]] [Fin 2, Fin 5] =
        (Inr (s\<lparr>Solve_data_right := Some [Fin 5, Fin 2]\<rparr>), [Fin 2, Fin 5])" for fd fi
    by code_simp simp
  show ?thesis
    using 1 2 [of "fresh_double h" "fresh_int h"] 3 [of "fresh_double h" "fresh_int h"]
      allocator_ok_eq [OF assms] by simp
qed

theorem exchange_matrix_witness:
  "malloc_ok \<lparr>malloc_ok = True, fresh_double = (\<lambda>_. NaN), fresh_int = (\<lambda>_. 0)\<rparr>
   \<and> Solve_call \<lparr>malloc_ok = True, fresh_double = (\<lambda>_. NaN), fresh_int = (\<lambda>_. 0)\<rparr>
        \<lparr>Solve_data_right = None\<rparr> [[Fin 0, Fin 1], [Fin 1, Fin 0]] [Fin 2, Fin 5] =
        (Inr \<lparr>Solve_data_right = Some [Fin 5, Fin 2]\<rparr>, [Fin 2, Fin 5])"
  using exchange_matrix [of "\<lparr>malloc_ok = True, fresh_double = (\<lambda>_. NaN), fresh_int = (\<lambda>_. 0)\<rparr>"
      Decomp_init "\<lparr>Solve_data_right = None\<rparr>"]
  by simp

section \<open>Solve::operator()\<close>
















section \<open>Malformed input\<close>

text \<open>
  C3. \<^verbatim>\<open>Decomp::operator()\<close> compares the number of rows with the length of the first
  row only. The input [[1,2,3],[4],[5,6,7,8,9]] is not square, is not rejected, and
  is factored as the matrix [[1,2,3],[4,5,6],[7,8,9]]; the input [[1,2],[3,4,5]]
  is not rejected either, and the copy loop writes a fifth element into a buffer
  of four.
\<close>

theorem ragged_matrix_accepted:
  "Decomp_call h d [[Fin 1, Fin 2, Fin 3], [Fin 4], [Fin 5, Fin 6, Fin 7, Fin 8, Fin 9]] =
     Decomp_call h d [[Fin 1, Fin 2, Fin 3], [Fin 4, Fin 5, Fin 6], [Fin 7, Fin 8, Fin 9]]
   \<and> \<not> isl (Decomp_call h d [[Fin 1, Fin 2, Fin 3], [Fin 4], [Fin 5, Fin 6, Fin 7, Fin 8, Fin 9]])
   \<and> Decomp_call h d [[Fin 1, Fin 2], [Fin 3, Fin 4, Fin 5]] = Inl UndefinedBehaviour"
  by (simp add: Decomp_call_def Let_def)

section \<open>The zero matrix\<close>

text \<open>
  C6. For the 2-by-2 zero matrix the norm is 0, no test against norm * EPSILON
  succeeds, the elimination and the estimate run to their end, and \<^verbatim>\<open>decomp\<close> returns
  flag 0 with a condition that is a NaN: neither at least 1.0 nor the value 1e32.
\<close>

theorem zero_matrix_condition:
  "decomp \<lparr>malloc_ok = True, fresh_double = fd, fresh_int = fi\<rparr> 2 2
     \<lparr>mem_a = Some [Fin 0, Fin 0, Fin 0, Fin 0], mem_cond = c, mem_pivot = Some [p0, p1], mem_flag = f\<rparr> =
   \<lparr>mem_a = Some [Fin 0, Fin 0, NaN, Fin 0], mem_cond = NaN, mem_pivot = Some [0, 1], mem_flag = 0\<rparr>
   \<and> \<not> flt (Fin 1) NaN \<and> \<not> feq NaN (Fin 1) \<and> \<not> feq NaN sentinel"
  by code_simp

text \<open>
  What the end of \<^verbatim>\<open>decomp\<close> does when the first loop of the estimate runs to its end:
  the quotient is replaced by 1.0 when it compares below 1.0, so the result never
  compares below 1.0, and the flag becomes 3 when adding 1.0 does not change it.
\<close>

lemma estimate_floor:
  fixes pivot :: "int list"
  assumes "ytrans ndim anorm a [0..<n] work = Done w"
  defines "w2 \<equiv> fold (ytrans_back_step n ndim a pivot) (rev [0..<n - 1]) w"
  defines "c1 \<equiv> fdiv (fmul anorm (sum_abs n (solve n ndim a w2 pivot))) (sum_abs n w2)"
  shows "fst (estimate n ndim anorm a pivot work f) = (if flt c1 (Fin 1) then Fin 1 else c1)"
    and "\<not> flt (fst (estimate n ndim anorm a pivot work f)) (Fin 1)"
    and "feq (fadd (fst (estimate n ndim anorm a pivot work f)) (Fin 1))
           (fst (estimate n ndim anorm a pivot work f)) \<Longrightarrow>
         snd (estimate n ndim anorm a pivot work f) = 3"
  using assms(1) by (simp_all add: estimate_def Let_def w2_def c1_def)

text \<open>What the two routines do reject.\<close>

lemma Decomp_call_rejects:
  "matrix = [] \<or> length matrix \<noteq> length (matrix ! 0) \<Longrightarrow>
   \<exists>msg. Decomp_call h d matrix = Inl (LogicError msg)"
  by (auto simp: Decomp_call_def)

lemma decomp_illegal_input:
  "mem_a mem = None \<or> mem_pivot mem = None \<or> n < 1 \<or> ndim < n \<Longrightarrow>
   decomp h n ndim mem = mem\<lparr>mem_flag := 2\<rparr>"
  by (auto simp: decomp_def Let_def split: option.splits)


section \<open>The jump to the exit on a small pivot\<close>









section \<open>Pivoting\<close>































section \<open>The identity matrix\<close>































end
